theory Spec2Isabelle
  imports Main "HOL-Library.AList"
begin

section \<open>JavaScript containers used by the converter\<close>

text \<open>
  A JavaScript \<open>Set\<close> iterates in insertion order and ignores the insertion of a member it
  already has: it is a list without duplicates, \<open>add\<close> appending at the end.
  \<open>new Set(iterable)\<close> adds the elements one after the other, so the first occurrence of
  each element fixes its position.
\<close>

definition Set_add :: "'a list \<Rightarrow> 'a \<Rightarrow> 'a list" where
  "Set_add s x = (if x \<in> set s then s else s @ [x])"


text \<open>
  \<open>Array.prototype.sort(cmp)\<close> is stable, and for a comparator that is a consistent
  ordering its result is the one stable sorted arrangement of the array. The model is
  the stable insertion sort driven by the comparator's sign, as the engine reads it:
  \<open>cmp a b \<le> 0\<close> keeps \<open>a\<close> before \<open>b\<close>.
\<close>

fun insort_cmp :: "('a \<Rightarrow> 'a \<Rightarrow> int) \<Rightarrow> 'a \<Rightarrow> 'a list \<Rightarrow> 'a list" where
  "insort_cmp cmp x [] = [x]"
| "insort_cmp cmp x (y # ys) =
     (if cmp x y \<le> 0 then x # y # ys else y # insort_cmp cmp x ys)"

definition Array_sort :: "('a \<Rightarrow> 'a \<Rightarrow> int) \<Rightarrow> 'a list \<Rightarrow> 'a list" where
  "Array_sort cmp xs = foldr (insort_cmp cmp) xs []"

text \<open>Strings: \<open>startsWith\<close>, \<open>split\<close> on a one-character separator, \<open>join\<close>,
  and \<open>replace\<close> with a string pattern, which replaces the first occurrence only.\<close>

definition startsWith :: "string \<Rightarrow> string \<Rightarrow> bool" where
  "startsWith s p = (take (length p) s = p)"

fun split :: "char \<Rightarrow> string \<Rightarrow> string list" where
  "split c [] = [[]]"
| "split c (x # xs) =
     (if x = c then [] # split c xs
      else (case split c xs of w # ws \<Rightarrow> (x # w) # ws | [] \<Rightarrow> [[x]]))"

fun join :: "string \<Rightarrow> string list \<Rightarrow> string" where
  "join sep [] = []"
| "join sep [x] = x"
| "join sep (x # y # ys) = x @ sep @ join sep (y # ys)"

fun replace :: "char \<Rightarrow> char \<Rightarrow> string \<Rightarrow> string" where
  "replace pat rep [] = []"
| "replace pat rep (c # cs) = (if c = pat then rep # cs else c # replace pat rep cs)"

section \<open>The build-target tree: \<open>meteor-arch.js\<close>\<close>

text \<open>
  One node of the architecture tree. The private fields of the class are the selectors;
  \<open>#imports\<close> is a JavaScript \<open>Map\<close> from specifier to insertion-order index, kept as an
  association list in insertion order. The parent reference is followed for reading only,
  so a node carries the state of its parent chain at the moment of the query. The
  back-set \<open>#childArchs\<close> is read by \<open>hasChildArchs\<close> alone and is left out.
\<close>

datatype MeteorArch = MeteorArch
  (archName: string)
  (parentArch: "MeteorArch option")
  (archExports: "string list")
  (archImports: "(string \<times> int) list")
  (impliedPackages: "string list")
  (preloadPackages: "string list")
  (unorderedPackages: "string list")
  (mainModule: "string option")
  (assets: "string list")
  (modified: bool)

definition new_MeteorArch :: "string \<Rightarrow> MeteorArch option \<Rightarrow> MeteorArch" where
  "new_MeteorArch name parent = MeteorArch name parent [] [] [] [] [] None [] False"

fun addExport :: "string \<Rightarrow> MeteorArch \<Rightarrow> MeteorArch" where
  "addExport symbol (MeteorArch n p ex im ip pp up mm as m) =
     MeteorArch n p (ex @ [symbol]) im ip pp up mm as True"

fun addAsset :: "string \<Rightarrow> MeteorArch \<Rightarrow> MeteorArch" where
  "addAsset file (MeteorArch n p ex im ip pp up mm as m) =
     MeteorArch n p ex im ip pp up mm (as @ [file]) True"


fun addPreloadPackage :: "string \<Rightarrow> MeteorArch \<Rightarrow> MeteorArch" where
  "addPreloadPackage nodeName (MeteorArch n p ex im ip pp up mm as m) =
     MeteorArch n p ex im ip (Set_add pp nodeName) up mm as True"

fun addUnorderedPackage :: "string \<Rightarrow> MeteorArch \<Rightarrow> MeteorArch" where
  "addUnorderedPackage nodeName (MeteorArch n p ex im ip pp up mm as m) =
     MeteorArch n p ex im ip pp (Set_add up nodeName) mm as True"

fun addImpliedPackage :: "string \<Rightarrow> MeteorArch \<Rightarrow> MeteorArch" where
  "addImpliedPackage meteorName (MeteorArch n p ex im ip pp up mm as m) =
     MeteorArch n p ex im (Set_add ip meteorName) pp up mm as True"

fun setMainModule :: "string \<Rightarrow> MeteorArch \<Rightarrow> MeteorArch" where
  "setMainModule filePath (MeteorArch n p ex im ip pp up mm as m) =
     MeteorArch n p ex im ip pp up (Some filePath) as True"



text \<open>
  \<open>isNoop(justOwn = true)\<close>. The result is a JavaScript value: \<open>Some b\<close> is the boolean
  \<open>b\<close>, \<open>None\<close> is \<open>undefined\<close>, which \<open>this.parentArch?.isNoop()\<close> yields at a node
  without parent. The call on the parent passes no argument, so it runs with the
  default \<open>justOwn = true\<close>.
\<close>

fun isNoop :: "bool \<Rightarrow> MeteorArch \<Rightarrow> bool option" where
  "isNoop justOwn (MeteorArch n p ex im ip pp up mm as m) =
     (if \<not> justOwn then
        (if m then Some False
         else (case p of None \<Rightarrow> None | Some parent \<Rightarrow> isNoop True parent))
      else Some (\<not> m))"

text \<open>The ancestors of a node, nearest first, and what the flag records along the chain.\<close>

fun ancestors :: "MeteorArch \<Rightarrow> MeteorArch list" where
  "ancestors (MeteorArch n p ex im ip pp up mm as m) =
     (case p of None \<Rightarrow> [] | Some parent \<Rightarrow> parent # ancestors parent)"

definition neverModified :: "MeteorArch \<Rightarrow> bool" where
  "neverModified a = (\<not> modified a \<and> list_all (\<lambda>x. \<not> modified x) (ancestors a))"


section \<open>The package unit: \<open>convert-meteor-package-to-npm.js\<close>\<close>

text \<open>
  A dependency value is the placeholder symbol or a version string; \<open>Undefined\<close> is what
  reading the \<open>#version\<close> of a unit yields before \<open>setBasic\<close> has stored one.
\<close>

datatype jsver = meteorVersionPlaceholderSymbol | Version string | Undefined

datatype error = MissingPackage string | TypeError | OutOfFuel

text \<open>
  The private fields of the class that the operations below read or write. The three
  dependency objects are association lists in key insertion order (the order of
  \<open>Object.keys\<close> and \<open>Object.entries\<close> for keys that are not array indices, as package
  specifiers are); the \<open>Set\<close> fields are lists without duplicates in insertion order.
\<close>

record MeteorPackage =
  meteorName :: string
  nodeName :: "string option"
  version :: "string option"
  description :: "string option"
  dependencies :: "(string \<times> jsver) list"
  peerDependencies :: "(string \<times> jsver) list"
  optionalDependencies :: "(string \<times> jsver) list"
  serverJsExports :: "string list"
  clientJsExports :: "string list"
  clientJsImports :: "string list"
  serverJsImports :: "string list"
  impliedClientPackages :: "string list"
  impliedServerPackages :: "string list"
  allPackages :: "string list"
  immediateDependencies :: "string list"

definition commonJS :: "string list" where
  "commonJS = [''jquery'', ''underscore'', ''momentjs:moment'', ''softwarerero:accounts-t9n'']"

definition excludes :: "string list" where
  "excludes = [''ecmascript'', ''typescript'', ''modules'', ''less'', ''minifiers'',
     ''isobuild:compiler-plugin'', ''isobuild:dynamic-import'', ''ecmascript-runtime-client'',
     ''ecmascript-runtime-server'', ''isobuild:minifier-plugin'', ''standard-minifier-css'',
     ''standard-minifier-js'', ''hot-module-replacement'']"


definition new_MeteorPackage :: "string \<Rightarrow> MeteorPackage" where
  "new_MeteorPackage name =
     \<lparr>meteorName = name, nodeName = None, version = None, description = None,
      dependencies = [], peerDependencies = [], optionalDependencies = [],
      serverJsExports = [], clientJsExports = [], clientJsImports = [], serverJsImports = [],
      impliedClientPackages = [], impliedServerPackages = [], allPackages = [],
      immediateDependencies = []\<rparr>"

text \<open>
  \<open>nodeNameToMeteorName\<close>. Element 1 of the split exists whenever the name starts with
  \<open>@meteor/\<close>.
\<close>

definition nodeNameToMeteorName :: "string \<Rightarrow> string" where
  "nodeNameToMeteorName name =
     (if startsWith name ''@meteor/''
      then (case split CHR ''/'' name of a # b # rest \<Rightarrow> b | _ \<Rightarrow> [])
      else join '':'' (split CHR ''/'' (drop 1 name)))"

definition isCommon :: "MeteorPackage \<Rightarrow> bool" where
  "isCommon p = (meteorName p \<in> set commonJS)"

text \<open>
  \<open>setBasic({ name, description, version })\<close>. \<open>name || this.#meteorName\<close> falls back on
  an undefined or empty name. \<open>meteorNameToNodeName\<close> lives in \<open>helpers/helpers.js\<close> and is
  a parameter here. A missing version makes \<open>version.replace\<close> throw.
\<close>

definition setBasic ::
  "(string \<Rightarrow> string) \<Rightarrow> string option \<Rightarrow> string option \<Rightarrow> string option \<Rightarrow> MeteorPackage
   \<Rightarrow> error + MeteorPackage" where
  "setBasic meteorNameToNodeName name descr vers p =
     (let mn = (case name of Some n \<Rightarrow> (if n = [] then meteorName p else n) | None \<Rightarrow> meteorName p)
      in case vers of
           None \<Rightarrow> Inl TypeError
         | Some v \<Rightarrow> Inr (p\<lparr>meteorName := mn, nodeName := Some (meteorNameToNodeName mn),
                             description := descr,
                             version := Some (replace CHR ''_'' CHR ''-'' v)\<rparr>))"

text \<open>
  The architecture list of the builder calls is an array or undefined;
  \<open>!archs?.length || archs.includes(a)\<close> holds without a list, for the empty list and for a
  list that names \<open>a\<close>.
\<close>

definition forServer :: "string list option \<Rightarrow> bool" where
  "forServer archs = (case archs of None \<Rightarrow> True | Some as \<Rightarrow> as = [] \<or> ''server'' \<in> set as)"

definition forClient :: "string list option \<Rightarrow> bool" where
  "forClient archs =
     (case archs of None \<Rightarrow> True
      | Some as \<Rightarrow> as = [] \<or> ''client'' \<in> set as \<or> ''web'' \<in> set as \<or> ''web.browser'' \<in> set as)"

text \<open>\<open>addImport(item, archs)\<close> of the package unit.\<close>

definition pkgAddImport :: "string \<Rightarrow> string list option \<Rightarrow> MeteorPackage \<Rightarrow> MeteorPackage" where
  "pkgAddImport item archs p =
     (let p1 = (if forServer archs then p\<lparr>serverJsImports := Set_add (serverJsImports p) item\<rparr> else p)
      in if forClient archs then p1\<lparr>clientJsImports := Set_add (clientJsImports p1) item\<rparr> else p1)"

record depOpts =
  unordered :: bool
  weak :: bool

text \<open>
  \<open>addMeteorDependencies(packages, archs, opts)\<close>: the block for \<open>qualia:\<close> packages
  (\<open>addMongoHack\<close>), the block for every package but \<open>@meteor/meteor\<close> (\<open>addMeteorHack\<close>),
  then the loop over the declared packages (\<open>addMeteorDependency\<close> is its body). \<open>deps\<close>
  aliases one of the three dependency objects (\<open>setDep\<close> writes to it).
\<close>

definition setDep :: "depOpts \<Rightarrow> string \<Rightarrow> jsver \<Rightarrow> MeteorPackage \<Rightarrow> MeteorPackage" where
  "setDep opts k v p =
     (if unordered opts then p\<lparr>peerDependencies := AList.update k v (peerDependencies p)\<rparr>
      else if weak opts then p\<lparr>optionalDependencies := AList.update k v (optionalDependencies p)\<rparr>
      else p\<lparr>dependencies := AList.update k v (dependencies p)\<rparr>)"

definition addMeteorDependency ::
  "(string \<Rightarrow> string) \<Rightarrow> string list option \<Rightarrow> depOpts \<Rightarrow> string \<Rightarrow> MeteorPackage \<Rightarrow> MeteorPackage" where
  "addMeteorDependency meteorNameToNodeName archs opts dep p =
     (let name = (case split CHR ''@'' dep of n # rest \<Rightarrow> n | [] \<Rightarrow> [])
      in if name \<in> set excludes then p
         else
           let p1 = (if \<not> weak opts then p\<lparr>allPackages := Set_add (allPackages p) name\<rparr> else p);
               nodeName = meteorNameToNodeName name;
               p2 = setDep opts nodeName meteorVersionPlaceholderSymbol p1
           in if \<not> unordered opts \<and> \<not> weak opts
              then (let p3 = pkgAddImport nodeName archs p2
                    in p3\<lparr>immediateDependencies := Set_add (immediateDependencies p3) name\<rparr>)
              else p2)"

definition addMongoHack :: "MeteorPackage \<Rightarrow> MeteorPackage" where
  "addMongoHack p =
     (let q = p\<lparr>dependencies :=
                 AList.update ''@meteor/mongo'' meteorVersionPlaceholderSymbol (dependencies p),
               allPackages := Set_add (allPackages p) ''mongo'',
               immediateDependencies := Set_add (immediateDependencies p) ''mongo''\<rparr>
      in if \<not> isCommon q then pkgAddImport ''@meteor/mongo'' (Some [''client'', ''server'']) q else q)"

definition addMeteorHack :: "MeteorPackage \<Rightarrow> MeteorPackage" where
  "addMeteorHack p =
     (let q = p\<lparr>dependencies :=
                 AList.update ''@meteor/meteor'' meteorVersionPlaceholderSymbol (dependencies p),
               allPackages := Set_add (allPackages p) ''meteor'',
               immediateDependencies := Set_add (immediateDependencies p) ''meteor''\<rparr>
      in if \<not> isCommon q then pkgAddImport ''@meteor/meteor'' (Some [''client'', ''server'']) q else q)"

definition addMeteorDependencies ::
  "(string \<Rightarrow> string) \<Rightarrow> string list \<Rightarrow> string list option \<Rightarrow> depOpts \<Rightarrow> MeteorPackage \<Rightarrow> MeteorPackage" where
  "addMeteorDependencies meteorNameToNodeName packages archs opts p =
     (let p1 = (if startsWith (meteorName p) ''qualia:'' then addMongoHack p else p);
          p2 = (if nodeName p1 \<noteq> Some ''@meteor/meteor'' then addMeteorHack p1 else p1)
      in fold (addMeteorDependency meteorNameToNodeName archs opts) packages p2)"



text \<open>
  The manifest object \<open>toJSON\<close> returns: its name, version, description, the three
  dependency objects, the exported variables, the module type and the implied packages.
  (The constant \<open>exports\<close> table, \<open>imports\<close> and \<open>assets\<close> carry no dependency value and
  are left out.) The registry \<open>packageMap\<close> is a map from legacy name to unit.
\<close>

record manifest =
  json_name :: "string option"
  json_version :: "string option"
  json_description :: "string option"
  json_dependencies :: "(string \<times> jsver) list"
  json_peerDependencies :: "(string \<times> jsver) list"
  json_optionalDependencies :: "(string \<times> jsver) list"
  json_exportedVars_server :: "string list"
  json_exportedVars_client :: "string list"
  json_type :: string
  json_implies_client :: "string list"
  json_implies_server :: "string list"

definition readVersion :: "MeteorPackage \<Rightarrow> jsver" where
  "readVersion p = (case version p of None \<Rightarrow> Undefined | Some v \<Rightarrow> Version v)"

fun newDependencies ::
  "(string \<rightharpoonup> MeteorPackage) \<Rightarrow> (string \<times> jsver) list \<Rightarrow> error + (string \<times> jsver) list" where
  "newDependencies packageMap [] = Inr []"
| "newDependencies packageMap ((name, vers) # entries) =
     (if vers = meteorVersionPlaceholderSymbol then
        (case packageMap (nodeNameToMeteorName name) of
           None \<Rightarrow> Inl (MissingPackage (nodeNameToMeteorName name))
         | Some importedPackage \<Rightarrow>
             (case newDependencies packageMap entries of
                Inl e \<Rightarrow> Inl e
              | Inr rest \<Rightarrow> Inr ((name, readVersion importedPackage) # rest)))
      else
        (case newDependencies packageMap entries of
           Inl e \<Rightarrow> Inl e
         | Inr rest \<Rightarrow> Inr ((name, vers) # rest)))"

definition toJSON :: "(string \<rightharpoonup> MeteorPackage) \<Rightarrow> MeteorPackage \<Rightarrow> error + manifest" where
  "toJSON packageMap p =
     (case newDependencies packageMap (dependencies p) of
        Inl e \<Rightarrow> Inl e
      | Inr deps \<Rightarrow>
          Inr \<lparr>json_name = nodeName p, json_version = version p,
               json_description = description p,
               json_dependencies = deps,
               json_peerDependencies = peerDependencies p,
               json_optionalDependencies = optionalDependencies p,
               json_exportedVars_server = serverJsExports p,
               json_exportedVars_client = clientJsExports p,
               json_type = (if meteorName p \<in> set commonJS then ''commonjs'' else ''module''),
               json_implies_client = impliedClientPackages p,
               json_implies_server = impliedServerPackages p\<rparr>)"












text \<open>
  \<open>sortImports\<close> and \<open>getImportStr\<close>. \<open>a.match(/^[@\/]/)\<close> holds for a specifier whose first
  character is \<open>@\<close> or \<open>/\<close>. The double quote is character 0x22, the line feed 0x0A.
\<close>

definition isAbsolute :: "string \<Rightarrow> bool" where
  "isAbsolute a = (case a of [] \<Rightarrow> False | c # cs \<Rightarrow> c = CHR ''@'' \<or> c = CHR ''/'')"

definition compareImports :: "string \<Rightarrow> string \<Rightarrow> int" where
  "compareImports a b =
     (let aIsAbsolute = isAbsolute a; bIsAbsolute = isAbsolute b
      in if aIsAbsolute \<and> bIsAbsolute then 0
         else if \<not> aIsAbsolute \<and> \<not> bIsAbsolute then 0
         else if aIsAbsolute \<and> \<not> bIsAbsolute then - 1
         else if \<not> aIsAbsolute \<and> bIsAbsolute then 1
         else 0)"

definition sortImports :: "string list \<Rightarrow> string list" where
  "sortImports imports = Array_sort compareImports imports"

definition importStatement :: "bool \<Rightarrow> string \<Rightarrow> string" where
  "importStatement common imp =
     (if common then ''require('' @ [CHR 0x22] @ imp @ [CHR 0x22] @ '');''
      else ''import '' @ [CHR 0x22] @ imp @ [CHR 0x22] @ '';'')"

definition getImportStr :: "string list \<Rightarrow> bool \<Rightarrow> string" where
  "getImportStr importsSet common =
     join [CHR 0x0A] (map (importStatement common) (sortImports importsSet))"

text \<open>
  The text written to \<open>__server.js\<close> and \<open>__client.js\<close>: the import block, the re-export of
  the main module when there is one, and the export block, joined by line feeds. The last
  two come from \<open>helpers/content.js\<close> and are parameters.
\<close>

definition entryWrapper :: "string list \<Rightarrow> bool \<Rightarrow> string option \<Rightarrow> string \<Rightarrow> string" where
  "entryWrapper importsSet common exportMainModuleStr exportStr =
     join [CHR 0x0A]
       ([getImportStr importsSet common]
        @ (case exportMainModuleStr of None \<Rightarrow> [] | Some str \<Rightarrow> [str])
        @ [exportStr])"

text \<open>What importing every declared import in its declared order would write.\<close>

definition declaredOrderImportStr :: "string list \<Rightarrow> bool \<Rightarrow> string" where
  "declaredOrderImportStr importsSet common =
     join [CHR 0x0A] (map (importStatement common) importsSet)"

section \<open>The registry and the completion signals\<close>









section \<open>Invariants and sample inputs\<close>

text \<open>What \<open>addMeteorDependencies\<close> establishes about the \<open>meteor\<close> package.\<close>

definition hasMeteor :: "MeteorPackage \<Rightarrow> bool" where
  "hasMeteor p = (map_of (dependencies p) ''@meteor/meteor'' = Some meteorVersionPlaceholderSymbol
     \<and> ''meteor'' \<in> set (allPackages p) \<and> ''meteor'' \<in> set (immediateDependencies p))"











definition coreNodeName :: "string \<Rightarrow> string" where
  "coreNodeName n = ''@meteor/'' @ n"

definition meteorUnit :: MeteorPackage where
  "meteorUnit = (new_MeteorPackage ''meteor'')\<lparr>nodeName := Some ''@meteor/meteor'', version := Some ''1.10.0''\<rparr>"

definition trackerUnit :: MeteorPackage where
  "trackerUnit = (new_MeteorPackage ''tracker'')\<lparr>nodeName := Some ''@meteor/tracker'', version := Some ''1.2.0''\<rparr>"

text \<open>A unit that declares \<open>tracker\<close> as an unordered dependency.\<close>

definition blazeUnit :: MeteorPackage where
  "blazeUnit =
     addMeteorDependencies coreNodeName [''tracker''] None \<lparr>unordered = True, weak = False\<rparr>
       ((new_MeteorPackage ''blaze'')\<lparr>nodeName := Some ''@meteor/blaze'', version := Some ''2.5.0''\<rparr>)"



definition rootArch :: MeteorArch where
  "rootArch = addExport ''Foo'' (new_MeteorArch ''client'' None)"

definition middleArch :: MeteorArch where
  "middleArch = new_MeteorArch ''web'' (Some rootArch)"

definition leafArch :: MeteorArch where
  "leafArch = new_MeteorArch ''web.browser'' (Some middleArch)"

section \<open>Sets and sorting\<close>














section \<open>Claims about the build-target tree\<close>


text \<open>
  Claim C9. \<open>isNoop\<close> asked with \<open>justOwn = false\<close> should return true exactly when neither
  the node nor any of its ancestors was modified. It does not: the call on the parent
  runs with the default \<open>justOwn = true\<close> and stops there, so a node under an unmodified
  parent and a modified grandparent is reported as a no-op; and at an unmodified root
  the result is \<open>undefined\<close>, not true.
\<close>

theorem isNoop_misses_grandparent_and_root:
  "isNoop False leafArch = Some True \<and> \<not> neverModified leafArch
   \<and> isNoop False (new_MeteorArch ''client'' None) = None
   \<and> neverModified (new_MeteorArch ''client'' None)"
  by (simp add: leafArch_def middleArch_def rootArch_def new_MeteorArch_def neverModified_def)

section \<open>Claims about the package unit\<close>

text \<open>
  Claim C8. The version stored by \<open>setBasic\<close> should hold no underscore. \<open>replace\<close> with a
  string pattern replaces the first underscore only: of \<open>1.0.0_1_2\<close> it stores
  \<open>1.0.0-1_2\<close>.
\<close>

theorem setBasic_keeps_second_underscore:
  "map_sum id version (setBasic coreNodeName None None (Some ''1.0.0_1_2'') (new_MeteorPackage ''foo''))
     = Inr (Some ''1.0.0-1_2'')
   \<and> CHR ''_'' \<in> set ''1.0.0-1_2''"
  by (simp add: setBasic_def new_MeteorPackage_def Let_def)

subsection \<open>\<open>addMeteorDependencies\<close>\<close>

lemma set_Set_add: "set (Set_add s x) = insert x (set s)"
  by (auto simp: Set_add_def)

lemma pkgAddImport_fields:
  "dependencies (pkgAddImport i a p) = dependencies p"
  "allPackages (pkgAddImport i a p) = allPackages p"
  "immediateDependencies (pkgAddImport i a p) = immediateDependencies p"
  "meteorName (pkgAddImport i a p) = meteorName p"
  "nodeName (pkgAddImport i a p) = nodeName p"
  by (simp_all add: pkgAddImport_def Let_def)

lemma pkgAddImport_mono:
  "set (clientJsImports p) \<subseteq> set (clientJsImports (pkgAddImport i a p))"
  "set (serverJsImports p) \<subseteq> set (serverJsImports (pkgAddImport i a p))"
  by (auto simp: pkgAddImport_def Let_def set_Set_add)

lemma pkgAddImport_both:
  "i \<in> set (clientJsImports (pkgAddImport i (Some [''client'', ''server'']) p))"
  "i \<in> set (serverJsImports (pkgAddImport i (Some [''client'', ''server'']) p))"
  by (simp_all add: pkgAddImport_def Let_def set_Set_add forServer_def forClient_def)

lemma setDep_fields:
  "allPackages (setDep opts k v p) = allPackages p"
  "immediateDependencies (setDep opts k v p) = immediateDependencies p"
  "clientJsImports (setDep opts k v p) = clientJsImports p"
  "serverJsImports (setDep opts k v p) = serverJsImports p"
  by (simp_all add: setDep_def)

lemma setDep_placeholder:
  "map_of (dependencies p) k = Some meteorVersionPlaceholderSymbol \<Longrightarrow>
   map_of (dependencies (setDep opts k' meteorVersionPlaceholderSymbol p)) k = Some meteorVersionPlaceholderSymbol"
  by (simp add: setDep_def update_conv')

lemma addMeteorDependency_hasMeteor:
  "hasMeteor p \<Longrightarrow> hasMeteor (addMeteorDependency f archs opts dep p)"
  unfolding hasMeteor_def addMeteorDependency_def Let_def
  by (auto simp: setDep_fields pkgAddImport_fields set_Set_add intro!: setDep_placeholder)

lemma addMeteorDependency_imports:
  "set (clientJsImports p) \<subseteq> set (clientJsImports (addMeteorDependency f archs opts dep p))"
  "set (serverJsImports p) \<subseteq> set (serverJsImports (addMeteorDependency f archs opts dep p))"
  by (auto simp: addMeteorDependency_def Let_def pkgAddImport_def setDep_def set_Set_add)

lemma fold_hasMeteor:
  "hasMeteor p \<Longrightarrow> hasMeteor (fold (addMeteorDependency f archs opts) packages p)"
  by (induction packages arbitrary: p) (simp_all add: addMeteorDependency_hasMeteor)

lemma fold_imports:
  "set (clientJsImports p) \<subseteq> set (clientJsImports (fold (addMeteorDependency f archs opts) packages p))
   \<and> set (serverJsImports p) \<subseteq> set (serverJsImports (fold (addMeteorDependency f archs opts) packages p))"
proof (induction packages arbitrary: p)
  case Nil show ?case by simp
next
  case (Cons d ds)
  show ?case using Cons[of "addMeteorDependency f archs opts d p"] addMeteorDependency_imports[of p f archs opts d]
    by auto
qed

lemma addMongoHack_fields: "nodeName (addMongoHack p) = nodeName p" "meteorName (addMongoHack p) = meteorName p"
  by (simp_all add: addMongoHack_def Let_def pkgAddImport_fields)

lemma addMeteorHack_hasMeteor: "hasMeteor (addMeteorHack p)"
  by (simp add: addMeteorHack_def hasMeteor_def Let_def pkgAddImport_fields update_conv' set_Set_add)

lemma addMeteorHack_imports: "\<not> isCommon p \<Longrightarrow>
   ''@meteor/meteor'' \<in> set (clientJsImports (addMeteorHack p)) \<and> ''@meteor/meteor'' \<in> set (serverJsImports (addMeteorHack p))"
  by (simp add: addMeteorHack_def Let_def isCommon_def pkgAddImport_both)

text \<open>
  Claim C10. For a unit whose target name is not \<open>@meteor/meteor\<close>, every call of
  \<open>addMeteorDependencies\<close>, whatever packages it declares, leaves \<open>@meteor/meteor\<close> in the
  dependency map as a placeholder and \<open>meteor\<close> in the all-packages set and in the
  immediate-dependency set; and unless the unit is one of the commonJS packages,
  \<open>@meteor/meteor\<close> is among the client imports and among the server imports.
\<close>

theorem addMeteorDependencies_adds_meteor:
  assumes "nodeName p \<noteq> Some ''@meteor/meteor''"
  shows "map_of (dependencies (addMeteorDependencies f packages archs opts p)) ''@meteor/meteor'' = Some meteorVersionPlaceholderSymbol
     \<and> ''meteor'' \<in> set (allPackages (addMeteorDependencies f packages archs opts p))
     \<and> ''meteor'' \<in> set (immediateDependencies (addMeteorDependencies f packages archs opts p))
     \<and> (\<not> isCommon p \<longrightarrow>
          ''@meteor/meteor'' \<in> set (clientJsImports (addMeteorDependencies f packages archs opts p))
        \<and> ''@meteor/meteor'' \<in> set (serverJsImports (addMeteorDependencies f packages archs opts p)))"
proof -
  let ?p1 = "if startsWith (meteorName p) ''qualia:'' then addMongoHack p else p"
  let ?q = "addMeteorHack ?p1"
  have n: "nodeName ?p1 \<noteq> Some ''@meteor/meteor''" "isCommon ?p1 = isCommon p"
    using assms by (simp_all add: addMongoHack_fields isCommon_def)
  have u: "addMeteorDependencies f packages archs opts p = fold (addMeteorDependency f archs opts) packages ?q"
    unfolding addMeteorDependencies_def Let_def using n(1) by simp
  have "hasMeteor (fold (addMeteorDependency f archs opts) packages ?q)"
    by (rule fold_hasMeteor[OF addMeteorHack_hasMeteor])
  moreover have "\<not> isCommon p \<Longrightarrow> ''@meteor/meteor'' \<in> set (clientJsImports ?q) \<and> ''@meteor/meteor'' \<in> set (serverJsImports ?q)"
    using addMeteorHack_imports[of ?p1] n(2) by simp
  ultimately show ?thesis unfolding u hasMeteor_def using fold_imports[of ?q f archs opts packages] by auto
qed

theorem addMeteorDependencies_adds_meteor_witness:
  "nodeName (new_MeteorPackage ''tracker'') \<noteq> Some ''@meteor/meteor''
   \<and> \<not> isCommon (new_MeteorPackage ''tracker'')
   \<and> ''@meteor/meteor'' \<notin> set (map coreNodeName [''reactive-var''])
   \<and> map_of (dependencies (addMeteorDependencies coreNodeName [''reactive-var''] None
           \<lparr>unordered = False, weak = False\<rparr> (new_MeteorPackage ''tracker''))) ''@meteor/meteor''
       = Some meteorVersionPlaceholderSymbol
   \<and> ''meteor'' \<in> set (allPackages (addMeteorDependencies coreNodeName [''reactive-var''] None
           \<lparr>unordered = False, weak = False\<rparr> (new_MeteorPackage ''tracker'')))
   \<and> ''@meteor/meteor'' \<in> set (clientJsImports (addMeteorDependencies coreNodeName [''reactive-var''] None
           \<lparr>unordered = False, weak = False\<rparr> (new_MeteorPackage ''tracker'')))
   \<and> ''@meteor/meteor'' \<in> set (serverJsImports (addMeteorDependencies coreNodeName [''reactive-var''] None
           \<lparr>unordered = False, weak = False\<rparr> (new_MeteorPackage ''tracker'')))"
  using addMeteorDependencies_adds_meteor[of "new_MeteorPackage ''tracker''" coreNodeName
      "[''reactive-var'']" None "\<lparr>unordered = False, weak = False\<rparr>"]
  by (simp add: new_MeteorPackage_def isCommon_def commonJS_def coreNodeName_def)

subsection \<open>\<open>toJSON\<close>\<close>

text \<open>The required dependencies are resolved: none of them is the placeholder.\<close>

lemma newDependencies_no_placeholder:
  "newDependencies packageMap entries = Inr deps \<Longrightarrow> meteorVersionPlaceholderSymbol \<notin> snd ` set deps"
proof (induction entries arbitrary: deps)
  case Nil
  then show ?case by simp
next
  case (Cons e entries)
  obtain name vers where e: "e = (name, vers)" by (cases e)
  from Cons.prems obtain rest v where r: "newDependencies packageMap entries = Inr rest"
    and d: "deps = (name, v) # rest" and v: "v \<noteq> meteorVersionPlaceholderSymbol"
    unfolding e by (auto simp: readVersion_def split: if_splits option.splits sum.splits)
  then show ?case using Cons.IH[OF r] by auto
qed

text \<open>
  Claim C2. No dependency value of the manifest should be the placeholder, in the
  required, the peer or the optional map. \<open>toJSON\<close> resolves the required map only and
  hands the other two over as they are: a unit that declared \<open>tracker\<close> as an unordered
  dependency has the placeholder as the value of \<open>@meteor/tracker\<close> in the peer map of its
  manifest, although \<open>tracker\<close> is registered with version \<open>1.2.0\<close>.
\<close>

theorem toJSON_keeps_peer_placeholder:
  "toJSON [''meteor'' \<mapsto> meteorUnit, ''tracker'' \<mapsto> trackerUnit, ''blaze'' \<mapsto> blazeUnit] blazeUnit
   = Inr \<lparr>json_name = Some ''@meteor/blaze'', json_version = Some ''2.5.0'',
           json_description = None,
           json_dependencies = [(''@meteor/meteor'', Version ''1.10.0'')],
           json_peerDependencies = [(''@meteor/tracker'', meteorVersionPlaceholderSymbol)],
           json_optionalDependencies = [],
           json_exportedVars_server = [], json_exportedVars_client = [],
           json_type = ''module'', json_implies_client = [], json_implies_server = []\<rparr>"
  by (simp add: toJSON_def blazeUnit_def meteorUnit_def trackerUnit_def coreNodeName_def
      addMeteorDependencies_def addMeteorHack_def addMeteorDependency_def setDep_def
      pkgAddImport_def isCommon_def commonJS_def excludes_def new_MeteorPackage_def
      startsWith_def Let_def nodeNameToMeteorName_def readVersion_def forServer_def
      forClient_def Set_add_def)

subsection \<open>\<open>getImportedGlobalsMaps\<close>\<close>












subsection \<open>The entry wrappers\<close>

text \<open>\<open>sortImports\<close> moves the absolute specifiers to the front and keeps each group in order.\<close>

lemma insort_abs: "isAbsolute x \<Longrightarrow> insort_cmp compareImports x ys = x # ys"
  by (cases ys) (auto simp: compareImports_def Let_def)

lemma insort_rel: "\<not> isAbsolute x \<Longrightarrow> insort_cmp compareImports x (filter isAbsolute ys @ filter (\<lambda>a. \<not> isAbsolute a) zs)
   = filter isAbsolute ys @ x # filter (\<lambda>a. \<not> isAbsolute a) zs"
proof (induction ys)
  case Nil
  then show ?case by (cases "filter (\<lambda>a. \<not> isAbsolute a) zs") (auto simp: compareImports_def Let_def dest: filter_eq_ConsD)
next
  case (Cons y ys)
  then show ?case by (auto simp: compareImports_def Let_def)
qed

lemma sortImports_partition: "sortImports xs = filter isAbsolute xs @ filter (\<lambda>a. \<not> isAbsolute a) xs"
proof (induction xs)
  case Nil show ?case by (simp add: sortImports_def Array_sort_def)
next
  case (Cons x xs)
  have "sortImports (x # xs) = insort_cmp compareImports x (sortImports xs)"
    by (simp add: sortImports_def Array_sort_def)
  then show ?case using Cons by (cases "isAbsolute x") (simp_all add: insort_abs insort_rel)
qed

text \<open>
  Claim C7, as stated: the wrapper imports every declared import in declaration order.
  For the declared imports \<open>./a.js\<close>, \<open>@meteor/b\<close> the import block names \<open>@meteor/b\<close>
  first.
\<close>

theorem getImportStr_not_in_declared_order:
  "getImportStr [''./a.js'', ''@meteor/b''] False
     = importStatement False ''@meteor/b'' @ [CHR 0x0A] @ importStatement False ''./a.js''
   \<and> getImportStr [''./a.js'', ''@meteor/b''] False
     \<noteq> declaredOrderImportStr [''./a.js'', ''@meteor/b''] False"
  by (simp add: getImportStr_def declaredOrderImportStr_def sortImports_partition isAbsolute_def
      importStatement_def)

text \<open>
  Claim C7, amended. The entry wrapper of an architecture starts with one import
  statement per declared import, in the value-import form or, for a commonJS package, in
  the require-call form: first the imports whose specifier starts with \<open>@\<close> or \<open>/\<close>, in
  declaration order, then the others, in declaration order.
\<close>

theorem entryWrapper_imports_absolute_first:
  "entryWrapper importsSet common exportMainModuleStr exportStr =
     join [CHR 0x0A]
       (join [CHR 0x0A]
          (map (importStatement common)
             (filter isAbsolute importsSet @ filter (\<lambda>imp. \<not> isAbsolute imp) importsSet))
        # (case exportMainModuleStr of None \<Rightarrow> [] | Some str \<Rightarrow> [str]) @ [exportStr])
   \<and> length (filter isAbsolute importsSet @ filter (\<lambda>imp. \<not> isAbsolute imp) importsSet)
       = length importsSet"
proof -
  have "length (filter isAbsolute importsSet) + length (filter (\<lambda>imp. \<not> isAbsolute imp) importsSet)
      = length importsSet"
    by (rule sum_length_filter_compl)
  then show ?thesis
    by (simp add: entryWrapper_def getImportStr_def sortImports_partition)
qed

section \<open>Claims about the registry\<close>
























end
